theory Spec2Isabelle
  imports Main "HOL-Library.Sublist"
begin

section \<open>Python values, errors and results\<close>

text \<open>
  The module \<^verbatim>\<open>crashclouseau/pushlog.py\<close> is embedded function by function.
  A Python \<^verbatim>\<open>str\<close> is a \<^typ>\<open>string\<close>: the characters are the code points
  0..255, so a description holding a code point beyond Latin-1 is outside the model.
  An exception is a value \<open>Inl e\<close> of the result type, a normal return is \<open>Inr v\<close>.
\<close>

datatype error =
    KeyError string
  | IndexError
  | TypeError
  | AttributeError
  | ValueError
  | HTTPError string

type_synonym 'a result = "error + 'a"

definition bind :: "'a result \<Rightarrow> ('a \<Rightarrow> 'b result) \<Rightarrow> 'b result" where
  "bind m f = (case m of Inl e \<Rightarrow> Inl e | Inr v \<Rightarrow> f v)"

section \<open>The regular expressions of module \<^verbatim>\<open>re\<close>\<close>

text \<open>
  The two module constants are compiled patterns. Only the constructs they use are
  modelled: the anchor \<^verbatim>\<open>^\<close>, literal characters, character sets with ranges,
  sequence, alternation, the greedy \<^verbatim>\<open>?\<close>, \<^verbatim>\<open>*\<close> and \<^verbatim>\<open>+\<close>, and groups
  (a non-capturing group is the expression itself).
\<close>

datatype item = Ch char | Rg char char

datatype regex =
    Eps
  | Bol
  | Lit char
  | In "item list"
  | Seq regex regex
  | Alt regex regex
  | Opt regex
  | Star regex
  | Plus regex
  | Grp nat regex

datatype flag = I | DOTALL | MULTILINE

record pattern =
  rx :: regex
  flags :: "flag list"

text \<open>The state of a match attempt: the position, the text from there on, the groups.\<close>

type_synonym mstate = "nat \<times> string \<times> (nat \<times> string) list"

text \<open>
  Case-insensitive matching compares lower-cased code points. On the code points 0..255
  lower-casing moves \<^verbatim>\<open>A\<close>..\<^verbatim>\<open>Z\<close> and the Latin-1 capitals 192..222 (215, the
  multiplication sign, apart) up by 32, and \<open>upper\<close> moves exactly those results back.
  A range of a set stands for the lower-cased forms of its members, so a character is in
  it when its lower-case or its upper-case form lies between the bounds.
\<close>

definition is_upper :: "char \<Rightarrow> bool" where
  "is_upper c =
     (let n = (of_char c :: nat)
      in (65 \<le> n \<and> n \<le> 90) \<or> (192 \<le> n \<and> n \<le> 222 \<and> n \<noteq> 215))"

definition is_lower :: "char \<Rightarrow> bool" where
  "is_lower c =
     (let n = (of_char c :: nat)
      in (97 \<le> n \<and> n \<le> 122) \<or> (224 \<le> n \<and> n \<le> 254 \<and> n \<noteq> 247))"

definition lower :: "char \<Rightarrow> char" where
  "lower c = (if is_upper c then char_of ((of_char c :: nat) + 32) else c)"

definition upper :: "char \<Rightarrow> char" where
  "upper c = (if is_lower c then char_of ((of_char c :: nat) - 32) else c)"

definition char_eq :: "bool \<Rightarrow> char \<Rightarrow> char \<Rightarrow> bool" where
  "char_eq ic c x = (if ic then lower c = lower x else c = x)"

definition in_range :: "char \<Rightarrow> char \<Rightarrow> char \<Rightarrow> bool" where
  "in_range a b x = ((of_char a :: nat) \<le> of_char x \<and> (of_char x :: nat) \<le> of_char b)"

fun item_has :: "bool \<Rightarrow> char \<Rightarrow> item \<Rightarrow> bool" where
  "item_has ic x (Ch c) = char_eq ic c x"
| "item_has ic x (Rg a b) =
     (if ic then in_range a b (lower x) \<or> in_range a b (upper (lower x))
      else in_range a b x)"

definition set_has :: "bool \<Rightarrow> item list \<Rightarrow> char \<Rightarrow> bool" where
  "set_has ic its x = (\<exists>i \<in> set its. item_has ic x i)"

definition one_char :: "(char \<Rightarrow> bool) \<Rightarrow> mstate \<Rightarrow> mstate list" where
  "one_char P st =
     (case st of (p, s, g) \<Rightarrow>
        (case s of [] \<Rightarrow> [] | x # xs \<Rightarrow> if P x then [(Suc p, xs, g)] else []))"

text \<open>
  A greedy repetition: every outcome of one more iteration that consumed something comes
  first, the outcome that stops here comes last. An iteration consumes at least a
  character, so the length of the remaining text bounds the number of iterations.
\<close>

fun star :: "(mstate \<Rightarrow> mstate list) \<Rightarrow> nat \<Rightarrow> mstate \<Rightarrow> mstate list" where
  "star f 0 st = [st]"
| "star f (Suc n) st =
     concat (map (star f n)
       (filter (\<lambda>st'. length (fst (snd st')) < length (fst (snd st))) (f st))) @ [st]"

text \<open>
  \<open>run r ic st\<close> lists the states in which an attempt to match \<open>r\<close> from \<open>st\<close> can end,
  in the order in which the backtracking matcher tries them.
\<close>

primrec run :: "regex \<Rightarrow> bool \<Rightarrow> mstate \<Rightarrow> mstate list" where
  "run Eps ic = (\<lambda>st. [st])"
| "run Bol ic = (\<lambda>st. if fst st = 0 then [st] else [])"
| "run (Lit c) ic = one_char (char_eq ic c)"
| "run (In its) ic = one_char (set_has ic its)"
| "run (Seq a b) ic = (\<lambda>st. concat (map (run b ic) (run a ic st)))"
| "run (Alt a b) ic = (\<lambda>st. run a ic st @ run b ic st)"
| "run (Opt a) ic = (\<lambda>st. run a ic st @ [st])"
| "run (Star a) ic = (\<lambda>st. star (run a ic) (length (fst (snd st))) st)"
| "run (Plus a) ic =
     (\<lambda>st. concat (map (\<lambda>st'. star (run a ic) (length (fst (snd st'))) st') (run a ic st)))"
| "run (Grp n a) ic =
     (\<lambda>st. map (\<lambda>st'. (fst st', fst (snd st'),
                        (n, take (fst st' - fst st) (fst (snd st))) # snd (snd st')))
                (run a ic st))"

definition match_at :: "pattern \<Rightarrow> string \<Rightarrow> nat \<Rightarrow> mstate option" where
  "match_at p s i =
     (case run (rx p) (I \<in> set (flags p)) (i, drop i s, []) of
        [] \<Rightarrow> None | m # _ \<Rightarrow> Some m)"

text \<open>\<^verbatim>\<open>Pattern.match\<close> tries position 0 only; \<^verbatim>\<open>Pattern.search\<close> tries every position
  from the left and keeps the first success.\<close>

definition match :: "pattern \<Rightarrow> string \<Rightarrow> mstate option" where
  "match p s = match_at p s 0"

definition search :: "pattern \<Rightarrow> string \<Rightarrow> mstate option" where
  "search p s =
     (case List.map_filter (match_at p s) [0 ..< Suc (length s)] of
        [] \<Rightarrow> None | m # _ \<Rightarrow> Some m)"

definition group :: "mstate \<Rightarrow> nat \<Rightarrow> string option" where
  "group m n = map_of (snd (snd m)) n"

definition str :: "string \<Rightarrow> regex" where
  "str w = foldr (\<lambda>c r. Seq (Lit c) r) w Eps"

definition seqs :: "regex list \<Rightarrow> regex" where
  "seqs rs = foldr Seq rs Eps"

definition alts :: "regex list \<Rightarrow> regex" where
  "alts rs = foldr Alt (butlast rs) (last rs)"

section \<open>The patterns and the two classifiers\<close>

text \<open>
  \<^verbatim>\<open>^(?:(?:back(?:ed|ing|s)?(?:[ _]*out[_]?))|(?:revert(?:ing|s)?)) (?:(?:cset|changeset|revision|rev|of)s?)?\<close>
  with \<^verbatim>\<open>re.I | re.DOTALL\<close>.
\<close>

definition backout_verb :: regex where
  "backout_verb =
     Alt (seqs [str ''back'', Opt (alts [str ''ed'', str ''ing'', str ''s'']),
                seqs [Star (In [Ch CHR '' '', Ch CHR ''_'']), str ''out'',
                      Opt (In [Ch CHR ''_''])]])
         (seqs [str ''revert'', Opt (alts [str ''ing'', str ''s''])])"

definition backout_noun :: regex where
  "backout_noun =
     seqs [alts [str ''cset'', str ''changeset'', str ''revision'', str ''rev'', str ''of''],
           Opt (Lit CHR ''s'')]"

definition BACKOUT_PAT :: pattern where
  "BACKOUT_PAT = \<lparr>
     rx = seqs [Bol, backout_verb, Lit CHR '' '', Opt backout_noun],
     flags = [I, DOTALL] \<rparr>"

text \<open>\<^verbatim>\<open>^bug[ \t]*([0-9]+)\<close> with \<^verbatim>\<open>re.I\<close>.\<close>

definition BUG_PAT :: pattern where
  "BUG_PAT = \<lparr>
     rx = seqs [Bol, str ''bug'', Star (In [Ch CHR '' '', Ch (CHR 0x09)]),
                Grp 1 (Plus (In [Rg CHR ''0'' CHR ''9'']))],
     flags = [I] \<rparr>"

definition is_backed_out :: "string \<Rightarrow> bool" where
  "is_backed_out desc = (match BACKOUT_PAT desc \<noteq> None)"

text \<open>\<^verbatim>\<open>int\<close> on a text: a non-empty run of decimal digits is read in base 10. The other
  texts \<^verbatim>\<open>int\<close> accepts (signs, blanks, underscores) are not modelled: they raise here.\<close>

definition digit_val :: "char \<Rightarrow> nat" where
  "digit_val c = (of_char c :: nat) - 48"

definition is_digit :: "char \<Rightarrow> bool" where
  "is_digit c = (48 \<le> (of_char c :: nat) \<and> (of_char c :: nat) \<le> 57)"

definition py_int :: "string \<Rightarrow> int result" where
  "py_int s =
     (if s \<noteq> [] \<and> list_all is_digit s
      then Inr (int (foldl (\<lambda>n c. 10 * n + digit_val c) 0 s))
      else Inl ValueError)"

definition get_bug :: "string \<Rightarrow> int result" where
  "get_bug desc =
     (case search BUG_PAT desc of
        Some m \<Rightarrow> (case group m 1 of Some t \<Rightarrow> py_int t | None \<Rightarrow> Inl TypeError)
      | None \<Rightarrow> Inr (- 1))"

section \<open>Parsed JSON and the operations the module applies to it\<close>

text \<open>
  The change-history service answers in JSON, and \<^verbatim>\<open>r.json()\<close> hands the parsed value
  to \<open>collect\<close>. An object is the list of its items in insertion order, as a Python
  \<^verbatim>\<open>dict\<close> keeps them. Numbers are integers: the fractions JSON allows do not occur in
  the fields the module reads.
\<close>

datatype json =
    JNull
  | JBool bool
  | JNum int
  | JStr string
  | JArr "json list"
  | JObj "(string \<times> json) list"

text \<open>\<^verbatim>\<open>v[k]\<close> with a text key: only a \<^verbatim>\<open>dict\<close> can be subscripted so.\<close>

fun getitem :: "json \<Rightarrow> string \<Rightarrow> json result" where
  "getitem (JObj kvs) k = (case map_of kvs k of None \<Rightarrow> Inl (KeyError k) | Some v \<Rightarrow> Inr v)"
| "getitem v k = Inl TypeError"

text \<open>\<^verbatim>\<open>v.values()\<close>: a method of \<^verbatim>\<open>dict\<close> alone.\<close>

fun py_values :: "json \<Rightarrow> json list result" where
  "py_values (JObj kvs) = Inr (map snd kvs)"
| "py_values v = Inl AttributeError"

text \<open>\<^verbatim>\<open>for x in v\<close>: a list gives its elements, a text its characters, a \<^verbatim>\<open>dict\<close> its keys.\<close>

fun py_iter :: "json \<Rightarrow> json list result" where
  "py_iter (JArr xs) = Inr xs"
| "py_iter (JStr s) = Inr (map (\<lambda>c. JStr [c]) s)"
| "py_iter (JObj kvs) = Inr (map (\<lambda>kv. JStr (fst kv)) kvs)"
| "py_iter v = Inl TypeError"

fun py_len :: "json \<Rightarrow> nat result" where
  "py_len (JArr xs) = Inr (length xs)"
| "py_len (JStr s) = Inr (length s)"
| "py_len (JObj kvs) = Inr (length kvs)"
| "py_len v = Inl TypeError"

text \<open>The methods of a compiled pattern raise \<^verbatim>\<open>TypeError\<close> on anything but a text.\<close>

fun as_text :: "json \<Rightarrow> string result" where
  "as_text (JStr s) = Inr s"
| "as_text v = Inl TypeError"

section \<open>The code outside the module\<close>

text \<open>
  A \<^verbatim>\<open>datetime\<close> is a point of the time line: whole seconds and microseconds. The
  bounds of the type (years 1 to 9999) and time zones are not modelled.
  \<^verbatim>\<open>relativedelta(seconds=k)\<close> moves the point by \<open>k\<close> seconds.
\<close>

record datetime =
  epoch_second :: int
  microsecond :: nat



text \<open>A build record, as the build lookups return it: a \<^verbatim>\<open>dict\<close> from keys to texts.\<close>

type_synonym build = "string \<rightharpoonup> string"

text \<open>
  Everything the module calls and does not define is a field of the world it runs in:
  \<^verbatim>\<open>lmdutils.get_date_from_timestamp\<close>, \<^verbatim>\<open>utils.short_rev\<close>,
  \<^verbatim>\<open>hgauthors.analyze_author\<close>, \<^verbatim>\<open>Mercurial.get_repo_url\<close>,
  \<^verbatim>\<open>requests.get(url, params=...)\<close> followed by \<^verbatim>\<open>.json()\<close> (which can fail),
  \<^verbatim>\<open>datetime.strftime\<close>, \<^verbatim>\<open>buildhub.get_two_last\<close>, \<^verbatim>\<open>utils.get_build_date\<close> and
  \<^verbatim>\<open>models.Build.get_two_last\<close>. The collaborators that classify are taken to return
  a value on every argument.
\<close>

record ('d, 'n, 'a) world =
  get_date_from_timestamp :: "json \<Rightarrow> 'd"
  short_rev :: "json \<Rightarrow> 'n"
  analyze_author :: "json \<Rightarrow> 'a"
  get_repo_url :: "string \<Rightarrow> string"
  requests_get_json :: "string \<Rightarrow> (string \<times> json) list \<Rightarrow> json result"
  strftime :: "datetime \<Rightarrow> string \<Rightarrow> string"
  buildhub_get_two_last :: "string \<Rightarrow> string \<Rightarrow> string \<Rightarrow> build list"
  get_build_date :: "string \<Rightarrow> datetime"
  models_get_two_last :: "datetime \<Rightarrow> string \<Rightarrow> string \<Rightarrow> build list"

text \<open>
  \<^verbatim>\<open>template.format(args)\<close> for templates whose only fields are \<^verbatim>\<open>{}\<close>: each field
  takes the next argument, and a field without an argument raises \<^verbatim>\<open>IndexError\<close>.
\<close>

fun format :: "string \<Rightarrow> string list \<Rightarrow> string result" where
  "format [] args = Inr []"
| "format [c] args = Inr [c]"
| "format (c # d # t) args =
     (if c = CHR ''{'' \<and> d = CHR ''}''
      then (case args of
              [] \<Rightarrow> Inl IndexError
            | a # rest \<Rightarrow> bind (format t rest) (\<lambda>r. Inr (a @ r)))
      else bind (format (d # t) args) (\<lambda>r. Inr (c # r)))"

text \<open>\<^verbatim>\<open>xs[i]\<close> on a list and \<^verbatim>\<open>b[k]\<close> on a build record.\<close>

definition index :: "'x list \<Rightarrow> nat \<Rightarrow> 'x result" where
  "index xs i = (if i < length xs then Inr (xs ! i) else Inl IndexError)"

definition getkey :: "build \<Rightarrow> string \<Rightarrow> string result" where
  "getkey b k = (case b k of None \<Rightarrow> Inl (KeyError k) | Some v \<Rightarrow> Inr v)"

section \<open>The collector\<close>

text \<open>A classified changeset: the \<^verbatim>\<open>dict\<close> that \<open>collect\<close> appends to its result.\<close>

record ('d, 'n, 'a) push =
  date :: 'd
  node :: 'n
  backedout :: bool
  files :: "json list"
  merge :: bool
  bug :: int
  author :: 'a

text \<open>
  The body of the inner loop, in the order in which Python evaluates it: the list
  comprehension over \<^verbatim>\<open>chgset["files"]\<close>, \<^verbatim>\<open>chgset["desc"]\<close>, \<^verbatim>\<open>chgset["author"]\<close>, then
  the entries of the \<^verbatim>\<open>dict\<close> display from \<^verbatim>\<open>"date"\<close> to \<^verbatim>\<open>"author"\<close>.
\<close>

definition collect_changeset ::
  "('d, 'n, 'a) world \<Rightarrow> (json \<Rightarrow> bool) \<Rightarrow> 'd \<Rightarrow> json \<Rightarrow> ('d, 'n, 'a) push result" where
  "collect_changeset W file_filter pushdate chgset =
     bind (getitem chgset ''files'') (\<lambda>fs.
     bind (py_iter fs) (\<lambda>fl.
     bind (getitem chgset ''desc'') (\<lambda>desc.
     bind (getitem chgset ''author'') (\<lambda>auth.
     bind (getitem chgset ''node'') (\<lambda>nd.
     bind (as_text desc) (\<lambda>text.
     bind (getitem chgset ''parents'') (\<lambda>parents.
     bind (py_len parents) (\<lambda>n.
     bind (get_bug text) (\<lambda>b.
     Inr \<lparr> date = pushdate,
           node = short_rev W nd,
           backedout = is_backed_out text,
           files = filter file_filter fl,
           merge = (n > 1),
           bug = b,
           author = analyze_author W auth \<rparr>)))))))))"

text \<open>The inner loop appends to \<open>res\<close>; an exception leaves the loop and the function.\<close>

fun collect_changesets ::
  "('d, 'n, 'a) world \<Rightarrow> (json \<Rightarrow> bool) \<Rightarrow> 'd \<Rightarrow> json list \<Rightarrow>
     ('d, 'n, 'a) push list \<Rightarrow> ('d, 'n, 'a) push list result" where
  "collect_changesets W file_filter pushdate [] res = Inr res"
| "collect_changesets W file_filter pushdate (chgset # rest) res =
     bind (collect_changeset W file_filter pushdate chgset) (\<lambda>r.
     collect_changesets W file_filter pushdate rest (res @ [r]))"

fun collect_pushes ::
  "('d, 'n, 'a) world \<Rightarrow> (json \<Rightarrow> bool) \<Rightarrow> json list \<Rightarrow>
     ('d, 'n, 'a) push list \<Rightarrow> ('d, 'n, 'a) push list result" where
  "collect_pushes W file_filter [] res = Inr res"
| "collect_pushes W file_filter (push # rest) res =
     bind (getitem push ''date'') (\<lambda>stamp.
     bind (getitem push ''changesets'') (\<lambda>cs.
     bind (py_iter cs) (\<lambda>cl.
     bind (collect_changesets W file_filter (get_date_from_timestamp W stamp) cl res) (\<lambda>res'.
     collect_pushes W file_filter rest res'))))"

definition collect ::
  "('d, 'n, 'a) world \<Rightarrow> json \<Rightarrow> (json \<Rightarrow> bool) \<Rightarrow> ('d, 'n, 'a) push list result" where
  "collect W data file_filter =
     bind (getitem data ''pushes'') (\<lambda>pushes.
     bind (py_values pushes) (\<lambda>ps.
     collect_pushes W file_filter ps []))"

section \<open>The entry points\<close>


definition pushlog_for_revs ::
  "('d, 'n, 'a) world \<Rightarrow> string \<Rightarrow> string \<Rightarrow> string \<Rightarrow> (json \<Rightarrow> bool) \<Rightarrow>
     ('d, 'n, 'a) push list result" where
  "pushlog_for_revs W startrev endrev channel file_filter =
     bind (format ''{}/json-pushes'' [get_repo_url W channel]) (\<lambda>url.
     bind (requests_get_json W url
             [(''fromchange'', JStr startrev), (''tochange'', JStr endrev),
              (''version'', JNum 2), (''full'', JNum 1)]) (\<lambda>r.
     collect W r file_filter))"

definition pushlog_for_revs_url ::
  "('d, 'n, 'a) world \<Rightarrow> string \<Rightarrow> string \<Rightarrow> string \<Rightarrow> string result" where
  "pushlog_for_revs_url W startrev endrev channel =
     format ''{}/pushloghtml?fromchange={}&tochange={}''
       [get_repo_url W channel, startrev, endrev]"

text \<open>\<^verbatim>\<open>if data:\<close> holds of a list that is not empty. \<open>None\<close> is the value \<^verbatim>\<open>None\<close>.\<close>

definition pushlog_for_buildid ::
  "('d, 'n, 'a) world \<Rightarrow> string \<Rightarrow> string \<Rightarrow> string \<Rightarrow> (json \<Rightarrow> bool) \<Rightarrow>
     ('d, 'n, 'a) push list option result" where
  "pushlog_for_buildid W buildid channel product file_filter =
     (let data = buildhub_get_two_last W buildid channel product
      in if data \<noteq> []
         then bind (index data 0) (\<lambda>b0.
              bind (getkey b0 ''revision'') (\<lambda>startrev.
              bind (index data 1) (\<lambda>b1.
              bind (getkey b1 ''revision'') (\<lambda>endrev.
              bind (pushlog_for_revs W startrev endrev channel file_filter) (\<lambda>r.
              Inr (Some r))))))
         else Inr None)"

definition pushlog_for_buildid_url ::
  "('d, 'n, 'a) world \<Rightarrow> string \<Rightarrow> string \<Rightarrow> string \<Rightarrow> string option result" where
  "pushlog_for_buildid_url W buildid channel product =
     (let data = models_get_two_last W (get_build_date W buildid) channel product;
          data = (if length data \<noteq> 2
                  then buildhub_get_two_last W buildid channel product else data)
      in if data \<noteq> []
         then bind (index data 0) (\<lambda>b0.
              bind (getkey b0 ''revision'') (\<lambda>startrev.
              bind (index data 1) (\<lambda>b1.
              bind (getkey b1 ''revision'') (\<lambda>endrev.
              bind (pushlog_for_revs_url W startrev endrev channel) (\<lambda>r.
              Inr (Some r))))))
         else Inr None)"

section \<open>A world for the examples\<close>

text \<open>
  A world in which the theorems below are run on concrete inputs: the date of a push is
  its time stamp, a short revision is the first twelve characters, an author is
  classified as the raw text, and the network is down.
\<close>

definition test_world :: "(int, string, string) world" where
  "test_world = \<lparr>
     get_date_from_timestamp = (\<lambda>v. case v of JNum n \<Rightarrow> n | _ \<Rightarrow> 0),
     short_rev = (\<lambda>v. case v of JStr s \<Rightarrow> take 12 s | _ \<Rightarrow> []),
     analyze_author = (\<lambda>v. case v of JStr s \<Rightarrow> s | _ \<Rightarrow> []),
     get_repo_url = (\<lambda>channel. ''https://hg.mozilla.org/mozilla-central''),
     requests_get_json = (\<lambda>url params. Inl (HTTPError ''offline'')),
     strftime = (\<lambda>dt fmt. []),
     buildhub_get_two_last = (\<lambda>buildid channel product. []),
     get_build_date = (\<lambda>buildid. \<lparr>epoch_second = 0, microsecond = 0\<rparr>),
     models_get_two_last = (\<lambda>d channel product. []) \<rparr>"






definition not_readme :: "json \<Rightarrow> bool" where
  "not_readme f = (f \<noteq> JStr ''README'')"

section \<open>What a pattern accepts\<close>

text \<open>
  The language of an expression, over lower-cased texts: the reference against which the
  backtracking matcher above is checked. \<open>conc\<close> is concatenation of languages and
  \<open>iter\<close> is iteration.
\<close>

primrec no_bol :: "regex \<Rightarrow> bool" where
  "no_bol Eps = True"
| "no_bol Bol = False"
| "no_bol (Lit c) = True"
| "no_bol (In its) = True"
| "no_bol (Seq a b) = (no_bol a \<and> no_bol b)"
| "no_bol (Alt a b) = (no_bol a \<and> no_bol b)"
| "no_bol (Opt a) = no_bol a"
| "no_bol (Star a) = no_bol a"
| "no_bol (Plus a) = no_bol a"
| "no_bol (Grp n a) = no_bol a"

definition conc :: "string set \<Rightarrow> string set \<Rightarrow> string set" where
  "conc A B = {u @ v | u v. u \<in> A \<and> v \<in> B}"

definition iter :: "string set \<Rightarrow> string set" where
  "iter A = {concat ws | ws. set ws \<subseteq> A}"







section \<open>Reading a payload\<close>


















text \<open>
  The values inside a payload: the payload, and with a value the elements of an array,
  the values and the keys of an object, and the characters of a text. These are all the
  values on which \<open>collect\<close> can call a collaborator.
\<close>

fun kids :: "json \<Rightarrow> json list" where
  "kids (JArr xs) = xs"
| "kids (JObj kvs) = map snd kvs @ map (\<lambda>kv. JStr (fst kv)) kvs"
| "kids (JStr s) = map (\<lambda>c. JStr [c]) s"
| "kids v = []"

inductive_set inside :: "json \<Rightarrow> json set" for v :: json where
  self: "v \<in> inside v"
| kid: "x \<in> inside v \<Longrightarrow> y \<in> set (kids x) \<Longrightarrow> y \<in> inside v"

definition agree ::
  "('d, 'n, 'a) world \<Rightarrow> (json \<Rightarrow> bool) \<Rightarrow> ('d, 'n, 'a) world \<Rightarrow> (json \<Rightarrow> bool) \<Rightarrow> json \<Rightarrow> bool" where
  "agree W1 f1 W2 f2 v =
     (get_date_from_timestamp W1 v = get_date_from_timestamp W2 v \<and>
      short_rev W1 v = short_rev W2 v \<and>
      analyze_author W1 v = analyze_author W2 v \<and>
      f1 v = f2 v)"

section \<open>The change-history service, by date\<close>









section \<open>The matcher against the language\<close>

lemma of_char_lower: "(of_char (lower x) :: nat) = (if is_upper x then of_char x + 32 else of_char x)"
proof -
  have "(of_char x :: nat) < 256" by simp
  then show ?thesis by (auto simp: lower_def is_upper_def Let_def)
qed

lemma lower_lower [simp]: "lower (lower x) = lower x"
proof -
  have "\<not> is_upper (lower x)"
    by (auto simp: is_upper_def Let_def of_char_lower)
  then show ?thesis by (simp add: lower_def)
qed


lemma one_char_Cons [simp]: "one_char P (p, x # xs, g) = (if P x then [(Suc p, xs, g)] else [])"
  by (simp add: one_char_def)

lemma one_char_Nil [simp]: "one_char P (p, [], g) = []"
  by (simp add: one_char_def)


lemma iterI: "set ws \<subseteq> A \<Longrightarrow> concat ws \<in> iter A"
  by (auto simp: iter_def)

lemma iter_Nil [simp]: "[] \<in> iter A"
  using iterI [of "[]" A] by simp










lemma str_simps: "str [] = Eps" "str (c # w) = Seq (Lit c) (str w)"
  by (simp_all add: str_def)

lemma no_bol_str [simp]: "no_bol (str w)"
  by (induction w) (simp_all add: str_simps)

lemma conc_single [simp]: "conc {u} {v} = {u @ v}"
  by (auto simp: conc_def)



lemma lower_plain: "\<not> is_upper c \<Longrightarrow> lower c = c"
  by (simp add: lower_def)

lemma lower_eq_plain:
  assumes "\<not> is_upper c" "\<not> is_lower c"
  shows "lower x = c \<longleftrightarrow> x = c"
proof
  assume l: "lower x = c"
  show "x = c"
  proof (cases "is_upper x")
    case True
    then have "(of_char c :: nat) = of_char x + 32" using l of_char_lower [of x] by simp
    then have "is_lower c" using True by (auto simp: is_lower_def is_upper_def Let_def)
    then show ?thesis using assms by simp
  next
    case False
    then show ?thesis using l by (simp add: lower_def)
  qed
next
  assume "x = c"
  then show "lower x = c" using assms by (simp add: lower_def)
qed

lemma lower_space [simp]: "lower x = CHR '' '' \<longleftrightarrow> x = CHR '' ''"
  by (rule lower_eq_plain) (simp_all add: is_upper_def is_lower_def)

lemma lower_underscore [simp]: "lower x = CHR ''_'' \<longleftrightarrow> x = CHR ''_''"
  by (rule lower_eq_plain) (simp_all add: is_upper_def is_lower_def)

lemma lower_tab [simp]: "lower x = CHR 0x09 \<longleftrightarrow> x = CHR 0x09"
  by (rule lower_eq_plain) (simp_all add: is_upper_def is_lower_def)

lemma char_eq_space [simp]: "char_eq True (CHR '' '') x \<longleftrightarrow> x = CHR '' ''"
proof -
  have "lower (CHR '' '') = CHR '' ''" by (simp add: lower_def is_upper_def)
  then have "char_eq True (CHR '' '') x \<longleftrightarrow> lower x = CHR '' ''"
    unfolding char_eq_def by (simp only: if_True eq_commute [of _ "lower x"])
  then show ?thesis by (simp only: lower_space)
qed

lemma char_eq_underscore [simp]: "char_eq True (CHR ''_'') x \<longleftrightarrow> x = CHR ''_''"
proof -
  have "lower (CHR ''_'') = CHR ''_''" by (simp add: lower_def is_upper_def)
  then have "char_eq True (CHR ''_'') x \<longleftrightarrow> lower x = CHR ''_''"
    unfolding char_eq_def by (simp only: if_True eq_commute [of _ "lower x"])
  then show ?thesis by (simp only: lower_underscore)
qed

lemma char_eq_tab [simp]: "char_eq True (CHR 0x09) x \<longleftrightarrow> x = CHR 0x09"
proof -
  have "lower (CHR 0x09) = CHR 0x09" by (simp add: lower_def is_upper_def)
  then have "char_eq True (CHR 0x09) x \<longleftrightarrow> lower x = CHR 0x09"
    unfolding char_eq_def by (simp only: if_True eq_commute [of _ "lower x"])
  then show ?thesis by (simp only: lower_tab)
qed














lemma of_char_upper:
  "(of_char (upper x) :: nat) = (if is_lower x then of_char x - 32 else of_char x)"
proof -
  have "(of_char x :: nat) < 256" by simp
  then show ?thesis by (auto simp: upper_def is_lower_def Let_def)
qed

lemma set_has_digit: "set_has True [Rg CHR ''0'' CHR ''9''] x = is_digit x"
  by (auto simp: set_has_def in_range_def is_digit_def of_char_lower of_char_upper
      is_upper_def is_lower_def Let_def split: if_splits)








lemma digits_fail:
  "\<not> is_digit x \<Longrightarrow> run (Grp 1 (Plus (In [Rg CHR ''0'' CHR ''9'']))) True (q, x # xs, g) = []"
  by (simp add: set_has_digit)

lemma digits_end: "run (Grp 1 (Plus (In [Rg CHR ''0'' CHR ''9'']))) True (q, [], g) = []"
  by simp


section \<open>The collector on a payload\<close>

lemma bind_simps [simp]: "bind (Inl e) f = Inl e" "bind (Inr v) f = f v"
  by (simp_all add: bind_def)


































lemma agree_self:
  assumes "\<forall>y \<in> inside v. agree W1 f1 W2 f2 y"
  shows "agree W1 f1 W2 f2 v"
  using assms inside.self by blast





section \<open>The bug reference extractor\<close>



section \<open>The backout detector\<close>









section \<open>The collector: the claims\<close>









section \<open>The entry points: the claims\<close>

text \<open>
  Claim C8. \<open>pushlog_for_revs_url\<close> returns the base URL of the channel, then
  \<^verbatim>\<open>/pushloghtml?fromchange=\<close>, the start revision, \<^verbatim>\<open>&tochange=\<close> and the end revision.
  It asks nothing of the network: the text is the same whatever the network answers.
\<close>

theorem pushlog_for_revs_url_is_text:
  "pushlog_for_revs_url W startrev endrev channel =
     Inr (get_repo_url W channel @ ''/pushloghtml?fromchange='' @ startrev @ ''&tochange='' @ endrev)
   \<and> pushlog_for_revs_url (W\<lparr>requests_get_json := net\<rparr>) startrev endrev channel =
       pushlog_for_revs_url W startrev endrev channel"
  by (simp add: pushlog_for_revs_url_def)

lemma pushlog_for_buildid_no_build:
  "buildhub_get_two_last W buildid channel product = [] \<Longrightarrow>
     pushlog_for_buildid W buildid channel product ff = Inr None"
  by (simp add: pushlog_for_buildid_def)

lemma pushlog_for_buildid_url_no_build:
  "models_get_two_last W (get_build_date W buildid) channel product = [] \<Longrightarrow>
   buildhub_get_two_last W buildid channel product = [] \<Longrightarrow>
     pushlog_for_buildid_url W buildid channel product = Inr None"
  by (simp add: pushlog_for_buildid_url_def)

lemma pushlog_for_buildid_one_build:
  assumes "buildhub_get_two_last W buildid channel product = [b]" "b ''revision'' = Some revision"
  shows "pushlog_for_buildid W buildid channel product ff = Inl IndexError"
  using assms by (simp add: pushlog_for_buildid_def index_def getkey_def)

lemma pushlog_for_buildid_url_one_build:
  assumes "length (models_get_two_last W (get_build_date W buildid) channel product) \<noteq> 2"
    "buildhub_get_two_last W buildid channel product = [b]" "b ''revision'' = Some revision"
  shows "pushlog_for_buildid_url W buildid channel product = Inl IndexError"
  using assms by (simp add: pushlog_for_buildid_url_def index_def getkey_def)

text \<open>
  Claim C1 asks for \<^verbatim>\<open>None\<close> when the build lookup finds fewer than two builds. With no
  build both functions return \<^verbatim>\<open>None\<close>. With one build the test \<^verbatim>\<open>if data:\<close> lets it
  through and \<^verbatim>\<open>data[1]\<close> raises \<^verbatim>\<open>IndexError\<close>, in \<open>pushlog_for_buildid\<close> and in
  \<open>pushlog_for_buildid_url\<close> alike.
\<close>

theorem pushlog_for_buildid_single_build_raises:
  "pushlog_for_buildid
     (test_world\<lparr>buildhub_get_two_last := \<lambda>buildid channel product. [[''revision'' \<mapsto> ''0123abcd'']]\<rparr>)
     ''20180506100114'' ''nightly'' ''Firefox'' not_readme = Inl IndexError
   \<and> pushlog_for_buildid_url
     (test_world\<lparr>buildhub_get_two_last := \<lambda>buildid channel product. [[''revision'' \<mapsto> ''0123abcd'']]\<rparr>)
     ''20180506100114'' ''nightly'' ''Firefox'' = Inl IndexError"
  by (simp add: pushlog_for_buildid_def pushlog_for_buildid_url_def index_def getkey_def test_world_def)



end
